theory Spec2Isabelle
  imports Complex_Main "HOL-Library.Sublist"
begin

section \<open>CSVfilter: the filter expression evaluator and the paginated driver of main.py\<close>

text \<open>
  The program parses a filter text with Python's \<^verbatim>\<open>ast.parse\<close>, walks the
  resulting tree against each row of a CSV file (\<^verbatim>\<open>eval_expression\<close>), coercing
  field values with \<^verbatim>\<open>convert_value\<close>, and collects the rows of one page for
  which the tree is truthy (\<^verbatim>\<open>read_csv_with_filter\<close>).

  Exceptions are values: every function that can raise returns \<open>error + 'a\<close>, with
  \<open>Inl\<close> the exception that propagates.
\<close>

subsection \<open>Python values and exceptions\<close>

text \<open>
  A Python \<^verbatim>\<open>float\<close> is an IEEE binary64 number: a rational that the format
  represents, an infinity or a NaN. The sign of zero is not kept (nothing in this program
  observes it).
\<close>

datatype pyfloat = Finite rat | PosInf | NegInf | NaN

text \<open>
  The values that reach the evaluator: \<^verbatim>\<open>None\<close> (what \<^verbatim>\<open>row.get\<close> gives
  for an absent field), and the scalars a field or a literal can be. Literals of the other
  constant kinds of Python (bytes, complex numbers, the ellipsis) are left out.
\<close>

datatype "value" = VNone | VBool bool | VInt int | VFloat pyfloat | VStr string

datatype error =
    ValueError string
  | TypeError
  | KeyError
  | AttributeError
  | IndexError
  | OverflowError

subsection \<open>The syntax tree of \<^verbatim>\<open>ast.parse(expression, mode='eval').body\<close>\<close>

datatype boolop = And | Or

datatype cmpop = Eq | NotEq | Lt | LtE | Gt | GtE | Is | IsNot | In | NotIn

datatype operator =
    Add | Sub | Mult | MatMult | Div | Mod | Power | LShift | RShift
  | BitOr | BitXor | BitAnd | FloorDiv

datatype unaryop = Invert | LNot | UAdd | USub

text \<open>
  The node classes the evaluator tells apart, the classes of the constructs the claims name
  (arithmetic, attribute access, subscripting), and \<open>OtherExpr\<close> with the class name for
  every other node class of Python (\<^verbatim>\<open>Lambda\<close>, \<^verbatim>\<open>IfExp\<close>,
  \<^verbatim>\<open>Tuple\<close>, ...). The keyword arguments of a call are left out: the evaluator
  never reads them.
\<close>

datatype expr =
    BoolOp boolop "expr list"
  | Compare expr "cmpop list" "expr list"
  | Name string
  | Constant "value"
  | Call expr "expr list"
  | BinOp expr operator expr
  | UnaryOp unaryop expr
  | Attribute expr string
  | Subscript expr expr
  | OtherExpr string

text \<open>
  A row of \<^verbatim>\<open>csv.DictReader\<close>: a dictionary from column name to the text of
  the field. A short line's missing fields hold \<^verbatim>\<open>None\<close>, which
  \<^verbatim>\<open>row.get\<close> returns for an absent key as well, so both are \<open>None\<close> here.
\<close>

type_synonym row = "string \<rightharpoonup> string"

definition row_get :: "row \<Rightarrow> string \<Rightarrow> value" where
  "row_get row key = (case row key of None \<Rightarrow> VNone | Some s \<Rightarrow> VStr s)"

subsection \<open>The built-ins \<^verbatim>\<open>int\<close> and \<^verbatim>\<open>float\<close> on text\<close>

text \<open>
  Both strip surrounding whitespace, read an optional sign, and accept digits with single
  underscores between them. Text is ASCII here, and an integer literal has no bound on its
  number of digits (the limit that Python 3.11 puts on \<^verbatim>\<open>int\<close> of a text of
  more than 4300 digits is not modelled).
\<close>

definition py_isspace :: "char \<Rightarrow> bool" where
  "py_isspace c = (let n = (of_char c :: nat) in (9 \<le> n \<and> n \<le> 13) \<or> n = 32)"

definition strip :: "string \<Rightarrow> string" where
  "strip s = rev (dropWhile py_isspace (rev (dropWhile py_isspace s)))"

definition is_digit :: "char \<Rightarrow> bool" where
  "is_digit c = (let n = (of_char c :: nat) in 48 \<le> n \<and> n \<le> 57)"

definition digit_val :: "char \<Rightarrow> nat" where
  "digit_val c = of_char c - 48"

definition nat_of_digits :: "string \<Rightarrow> nat" where
  "nat_of_digits ds = foldl (\<lambda>a c. 10 * a + digit_val c) 0 ds"

text \<open>\<^verbatim>\<open>digit (["_"] digit)*\<close>: the digits, when the whole text is of that form.\<close>

fun digitpart :: "string \<Rightarrow> string option" where
  "digitpart [] = None"
| "digitpart [c] = (if is_digit c then Some [c] else None)"
| "digitpart (c # d # rest) =
     (if is_digit c
      then (if d = CHR ''_'' then map_option (Cons c) (digitpart rest)
            else map_option (Cons c) (digitpart (d # rest)))
      else None)"

definition split_sign :: "string \<Rightarrow> bool \<times> string" where
  "split_sign s =
     (case s of
        [] \<Rightarrow> (False, [])
      | c # r \<Rightarrow> if c = CHR ''-'' then (True, r) else if c = CHR ''+'' then (False, r) else (False, s))"

definition int_of_str :: "string \<Rightarrow> int option" where
  "int_of_str s =
     (let (neg, body) = split_sign (strip s)
      in map_option (\<lambda>ds. if neg then - int (nat_of_digits ds) else int (nat_of_digits ds))
           (digitpart body))"

text \<open>
  Rounding a non-negative rational \<open>n / d\<close> to binary64, to nearest and ties to even:
  53 bits of mantissa, exponents down to the subnormals, and infinity from
  \<open>2 ^ 1024\<close> on.
\<close>

fun bit_length :: "nat \<Rightarrow> nat" where
  "bit_length n = (if n = 0 then 0 else Suc (bit_length (n div 2)))"

declare bit_length.simps [simp del]

definition scale2 :: "int \<Rightarrow> rat" where
  "scale2 p = (if 0 \<le> p then 2 ^ nat p else 1 / 2 ^ nat (- p))"

definition round_half_even :: "nat \<Rightarrow> nat \<Rightarrow> nat" where
  "round_half_even n d =
     (let q = n div d; r = n mod d
      in if 2 * r < d then q else if d < 2 * r then q + 1 else if even q then q else q + 1)"

definition binary64 :: "nat \<Rightarrow> nat \<Rightarrow> pyfloat" where
  "binary64 n d =
     (if n = 0 then Finite 0
      else
        let e0 = int (bit_length n) - int (bit_length d);
            e = (if scale2 e0 * of_nat d \<le> of_nat n then e0 else e0 - 1);
            p = max e (- 1022) - 52;
            m = (if p \<le> 0 then round_half_even (n * 2 ^ nat (- p)) d
                 else round_half_even n (d * 2 ^ nat p));
            x = of_nat m * scale2 p
        in if 2 ^ 1024 \<le> x then PosInf else Finite x)"

definition negate :: "pyfloat \<Rightarrow> pyfloat" where
  "negate f = (case f of Finite x \<Rightarrow> Finite (- x) | PosInf \<Rightarrow> NegInf | NegInf \<Rightarrow> PosInf | NaN \<Rightarrow> NaN)"

definition to_lower :: "char \<Rightarrow> char" where
  "to_lower c = (let n = (of_char c :: nat) in if 65 \<le> n \<and> n \<le> 90 then char_of (n + 32) else c)"

text \<open>The text before the first character that satisfies \<open>P\<close>, and the text after it.\<close>

definition split_at :: "(char \<Rightarrow> bool) \<Rightarrow> string \<Rightarrow> string \<times> string option" where
  "split_at P s =
     (case dropWhile (\<lambda>c. \<not> P c) s of
        [] \<Rightarrow> (s, None)
      | _ # r \<Rightarrow> (takeWhile (\<lambda>c. \<not> P c) s, Some r))"

definition opt_digits :: "string \<Rightarrow> string option" where
  "opt_digits s = (if s = [] then Some [] else digitpart s)"

text \<open>
  The mantissa \<^verbatim>\<open>digitpart ["." [digitpart]] | "." digitpart\<close>: the digits before
  and after the point.
\<close>

definition mantissa :: "string \<Rightarrow> (string \<times> string) option" where
  "mantissa s =
     (case split_at (\<lambda>c. c = CHR ''.'') s of
        (ip, None) \<Rightarrow> map_option (\<lambda>ds. (ds, [])) (digitpart ip)
      | (ip, Some fp) \<Rightarrow>
          (if ip = [] \<and> fp = [] then None
           else (case (opt_digits ip, opt_digits fp) of
                   (Some ds, Some fs) \<Rightarrow> Some (ds, fs)
                 | _ \<Rightarrow> None)))"

text \<open>The exponent \<^verbatim>\<open>["+" | "-"] digitpart\<close> after the letter e.\<close>

definition exponent :: "string option \<Rightarrow> int option" where
  "exponent t =
     (case t of
        None \<Rightarrow> Some 0
      | Some s \<Rightarrow>
          (let (neg, body) = split_sign s
           in map_option (\<lambda>ds. if neg then - int (nat_of_digits ds) else int (nat_of_digits ds))
                (digitpart body)))"

definition decimal :: "string \<Rightarrow> pyfloat option" where
  "decimal s =
     (case split_at (\<lambda>c. c = CHR ''e'' \<or> c = CHR ''E'') s of
        (m, t) \<Rightarrow>
          (case (mantissa m, exponent t) of
             (Some (ds, fs), Some x) \<Rightarrow>
               (let n = nat_of_digits (ds @ fs); k = x - int (length fs)
                in Some (if 0 \<le> k then binary64 (n * 10 ^ nat k) 1
                         else binary64 n (10 ^ nat (- k))))
           | _ \<Rightarrow> None))"

definition float_of_str :: "string \<Rightarrow> pyfloat option" where
  "float_of_str s =
     (let (neg, body) = split_sign (strip s);
          low = map to_lower body;
          r = (if low = ''inf'' \<or> low = ''infinity'' then Some PosInf
               else if low = ''nan'' then Some NaN
               else decimal body)
      in map_option (\<lambda>f. if neg then negate f else f) r)"

subsection \<open>The built-ins \<^verbatim>\<open>int\<close>, \<^verbatim>\<open>float\<close>, \<^verbatim>\<open>len\<close> and truth on values\<close>

definition truncate :: "rat \<Rightarrow> int" where
  "truncate x = (if 0 \<le> x then \<lfloor>x\<rfloor> else - \<lfloor>- x\<rfloor>)"

text \<open>
  \<^verbatim>\<open>int(value)\<close>: a TypeError on \<^verbatim>\<open>None\<close>, a ValueError on text that is
  not an integer literal and on NaN, an OverflowError on an infinity; a float is truncated
  towards zero.
\<close>

fun py_int :: "value \<Rightarrow> error + value" where
  "py_int VNone = Inl TypeError"
| "py_int (VBool b) = Inr (VInt (if b then 1 else 0))"
| "py_int (VInt i) = Inr (VInt i)"
| "py_int (VFloat (Finite x)) = Inr (VInt (truncate x))"
| "py_int (VFloat NaN) = Inl (ValueError ''cannot convert float NaN to integer'')"
| "py_int (VFloat _) = Inl OverflowError"
| "py_int (VStr s) =
     (case int_of_str s of
        Some i \<Rightarrow> Inr (VInt i)
      | None \<Rightarrow> Inl (ValueError ''invalid literal for int() with base 10''))"

definition float_of_int :: "int \<Rightarrow> error + value" where
  "float_of_int i =
     (case binary64 (nat \<bar>i\<bar>) 1 of
        PosInf \<Rightarrow> Inl OverflowError
      | f \<Rightarrow> Inr (VFloat (if i < 0 then negate f else f)))"

fun py_float :: "value \<Rightarrow> error + value" where
  "py_float VNone = Inl TypeError"
| "py_float (VBool b) = Inr (VFloat (Finite (if b then 1 else 0)))"
| "py_float (VInt i) = float_of_int i"
| "py_float (VFloat f) = Inr (VFloat f)"
| "py_float (VStr s) =
     (case float_of_str s of
        Some f \<Rightarrow> Inr (VFloat f)
      | None \<Rightarrow> Inl (ValueError ''could not convert string to float''))"

fun py_len :: "value \<Rightarrow> error + value" where
  "py_len (VStr s) = Inr (VInt (int (length s)))"
| "py_len _ = Inl TypeError"

fun truthy :: "value \<Rightarrow> bool" where
  "truthy VNone = False"
| "truthy (VBool b) = b"
| "truthy (VInt i) = (i \<noteq> 0)"
| "truthy (VFloat f) = (f \<noteq> Finite 0)"
| "truthy (VStr s) = (s \<noteq> [])"

subsection \<open>The comparison functions of the \<^verbatim>\<open>operator\<close> module\<close>

text \<open>
  Booleans, integers and floats compare by their numeric value (exactly, also between an
  integer and a float); NaN is neither equal to nor ordered with anything. Texts compare
  by code point, lexicographically. Equality between values of different kinds is false and
  never raises; an ordering between them raises TypeError.
\<close>

fun as_float :: "value \<Rightarrow> pyfloat option" where
  "as_float (VBool b) = Some (Finite (if b then 1 else 0))"
| "as_float (VInt i) = Some (Finite (of_int i))"
| "as_float (VFloat f) = Some f"
| "as_float _ = None"

fun float_lt :: "pyfloat \<Rightarrow> pyfloat \<Rightarrow> bool" where
  "float_lt NaN _ = False"
| "float_lt _ NaN = False"
| "float_lt (Finite a) (Finite b) = (a < b)"
| "float_lt _ NegInf = False"
| "float_lt NegInf _ = True"
| "float_lt PosInf _ = False"
| "float_lt _ PosInf = True"

definition float_eq :: "pyfloat \<Rightarrow> pyfloat \<Rightarrow> bool" where
  "float_eq x y = (x \<noteq> NaN \<and> x = y)"

definition float_le :: "pyfloat \<Rightarrow> pyfloat \<Rightarrow> bool" where
  "float_le x y = (float_lt x y \<or> float_eq x y)"

fun str_lt :: "string \<Rightarrow> string \<Rightarrow> bool" where
  "str_lt [] [] = False"
| "str_lt [] (y # ys) = True"
| "str_lt (x # xs) [] = False"
| "str_lt (x # xs) (y # ys) =
     ((of_char x :: nat) < of_char y \<or> (x = y \<and> str_lt xs ys))"

definition str_le :: "string \<Rightarrow> string \<Rightarrow> bool" where
  "str_le s t = (str_lt s t \<or> s = t)"

definition py_eq :: "value \<Rightarrow> value \<Rightarrow> bool" where
  "py_eq a b =
     (case (as_float a, as_float b) of
        (Some x, Some y) \<Rightarrow> float_eq x y
      | (None, None) \<Rightarrow> a = b
      | _ \<Rightarrow> False)"

definition ordering ::
  "(pyfloat \<Rightarrow> pyfloat \<Rightarrow> bool) \<Rightarrow> (string \<Rightarrow> string \<Rightarrow> bool) \<Rightarrow> value \<Rightarrow> value \<Rightarrow> error + value" where
  "ordering on_floats on_strs a b =
     (case (as_float a, as_float b) of
        (Some x, Some y) \<Rightarrow> Inr (VBool (on_floats x y))
      | _ \<Rightarrow>
        (case (a, b) of
           (VStr s, VStr t) \<Rightarrow> Inr (VBool (on_strs s t))
         | _ \<Rightarrow> Inl TypeError))"

definition operator_eq :: "value \<Rightarrow> value \<Rightarrow> error + value" where
  "operator_eq a b = Inr (VBool (py_eq a b))"

definition operator_ne :: "value \<Rightarrow> value \<Rightarrow> error + value" where
  "operator_ne a b = Inr (VBool (\<not> py_eq a b))"

definition operator_lt :: "value \<Rightarrow> value \<Rightarrow> error + value" where
  "operator_lt = ordering float_lt str_lt"

definition operator_le :: "value \<Rightarrow> value \<Rightarrow> error + value" where
  "operator_le = ordering float_le str_le"

definition operator_gt :: "value \<Rightarrow> value \<Rightarrow> error + value" where
  "operator_gt = ordering (\<lambda>x y. float_lt y x) (\<lambda>s t. str_lt t s)"

definition operator_ge :: "value \<Rightarrow> value \<Rightarrow> error + value" where
  "operator_ge = ordering (\<lambda>x y. float_le y x) (\<lambda>s t. str_le t s)"

subsection \<open>\<^verbatim>\<open>parse_filter_expression\<close>\<close>

text \<open>
  \<^verbatim>\<open>ast.parse\<close> is Python's parser, not code of this program: it is the parameter
  \<open>ast_parse\<close>, which gives the tree of a text or \<open>None\<close> for a SyntaxError. The
  function returns the tree as the parser built it and turns a SyntaxError into a
  ValueError; it looks at no node. The other exceptions of the parser (on a text with a null
  character, or nested too deeply) are not modelled.
\<close>

definition parse_filter_expression :: "(string \<Rightarrow> expr option) \<Rightarrow> string \<Rightarrow> error + expr" where
  "parse_filter_expression ast_parse expression =
     (case ast_parse expression of
        Some body \<Rightarrow> Inr body
      | None \<Rightarrow> Inl (ValueError (''Invalid filter expression: '' @ expression)))"

subsection \<open>\<^verbatim>\<open>convert_value\<close>\<close>

text \<open>
  \<^verbatim>\<open>int(value)\<close>, on a ValueError \<^verbatim>\<open>float(value)\<close>, on a ValueError the
  value itself. Only ValueError is caught: any other exception of \<^verbatim>\<open>int\<close> or
  \<^verbatim>\<open>float\<close> propagates.
\<close>

definition convert_value :: "value \<Rightarrow> error + value" where
  "convert_value v =
     (case py_int v of
        Inl (ValueError _) \<Rightarrow>
          (case py_float v of
             Inl (ValueError _) \<Rightarrow> Inr v
           | r \<Rightarrow> r)
      | r \<Rightarrow> r)"

subsection \<open>\<^verbatim>\<open>eval_expression\<close>\<close>

text \<open>The dictionary \<^verbatim>\<open>ops\<close>: a lookup of a class that is not a key is a KeyError.\<close>

fun ops :: "cmpop \<Rightarrow> (value \<Rightarrow> value \<Rightarrow> error + value) option" where
  "ops Eq = Some operator_eq"
| "ops NotEq = Some operator_ne"
| "ops Lt = Some operator_lt"
| "ops LtE = Some operator_le"
| "ops Gt = Some operator_gt"
| "ops GtE = Some operator_ge"
| "ops _ = None"

fun ops_boolop :: "boolop \<Rightarrow> value list \<Rightarrow> value" where
  "ops_boolop And args = VBool (list_all truthy args)"
| "ops_boolop Or args = VBool (list_ex truthy args)"

text \<open>
  \<^verbatim>\<open>op(*(... for value in expr.values))\<close>: the generator is run to its end to build
  the argument tuple, so every child is evaluated, in order, and the first exception
  propagates.
\<close>

fun star_args :: "(error + 'a) list \<Rightarrow> error + 'a list" where
  "star_args [] = Inr []"
| "star_args (x # xs) =
     (case x of
        Inl e \<Rightarrow> Inl e
      | Inr v \<Rightarrow> (case star_args xs of Inl e \<Rightarrow> Inl e | Inr vs \<Rightarrow> Inr (v # vs)))"

text \<open>
  \<^verbatim>\<open>all(ops[type(op)](left, eval_expression(right, row)) for op, right in zip(...))\<close>:
  the generator is consumed by \<^verbatim>\<open>all\<close>, which stops at the first false
  comparison. Each pair looks the operator up, then takes the result of evaluating the
  right side, then compares it with \<open>left\<close>, the value of \<^verbatim>\<open>expr.left\<close>
  throughout. The right sides are passed with their results, of which only those of the
  pairs that are reached are read.
\<close>

fun all_comparisons :: "value \<Rightarrow> (cmpop \<times> (error + value)) list \<Rightarrow> error + value" where
  "all_comparisons left [] = Inr (VBool True)"
| "all_comparisons left ((op, right) # rest) =
     (case ops op of
        None \<Rightarrow> Inl KeyError
      | Some f \<Rightarrow>
        (case right of
           Inl e \<Rightarrow> Inl e
         | Inr r \<Rightarrow>
           (case f left r of
              Inl e \<Rightarrow> Inl e
            | Inr b \<Rightarrow> if truthy b then all_comparisons left rest else Inr (VBool False))))"

fun class_name :: "expr \<Rightarrow> string" where
  "class_name (BoolOp _ _) = ''BoolOp''"
| "class_name (Compare _ _ _) = ''Compare''"
| "class_name (Name _) = ''Name''"
| "class_name (Constant _) = ''Constant''"
| "class_name (Call _ _) = ''Call''"
| "class_name (BinOp _ _ _) = ''BinOp''"
| "class_name (UnaryOp _ _) = ''UnaryOp''"
| "class_name (Attribute _ _) = ''Attribute''"
| "class_name (Subscript _ _) = ''Subscript''"
| "class_name (OtherExpr c) = c"

definition unsupported :: "expr \<Rightarrow> error" where
  "unsupported e =
     ValueError (''Unsupported expression type: <class '' @ [CHR 0x27] @ ''ast.''
                 @ class_name e @ [CHR 0x27] @ ''>'')"

text \<open>
  The message of the last branch holds \<^verbatim>\<open>type(expr)\<close>, which Python (3.9 and
  later) prints as \<^verbatim>\<open><class 'ast.BinOp'>\<close> for a \<open>BinOp\<close> node.

  The branches are in the order of the source. In the call branch
  \<^verbatim>\<open>expr.func.id\<close> is an AttributeError when the target is not a name, and
  \<^verbatim>\<open>expr.args[0]\<close> an IndexError when there is no argument; arguments after the
  first are not read.
\<close>

fun eval_expression :: "expr \<Rightarrow> row \<Rightarrow> error + value" where
  "eval_expression (BoolOp op values) row =
     (case star_args (map (\<lambda>v. eval_expression v row) values) of
        Inl e \<Rightarrow> Inl e
      | Inr args \<Rightarrow> Inr (ops_boolop op args))"
| "eval_expression (Compare left cmpops comparators) row =
     (case eval_expression left row of
        Inl e \<Rightarrow> Inl e
      | Inr l \<Rightarrow>
          all_comparisons l (zip cmpops (map (\<lambda>right. eval_expression right row) comparators)))"
| "eval_expression (Name ident) row = convert_value (row_get row ident)"
| "eval_expression (Constant v) row = Inr v"
| "eval_expression (Call func args) row =
     (case func of
        Name ident \<Rightarrow>
          (if ident = ''len''
           then (case args of
                   [] \<Rightarrow> Inl IndexError
                 | arg # _ \<Rightarrow>
                   (case eval_expression arg row of
                      Inl e \<Rightarrow> Inl e
                    | Inr arg_value \<Rightarrow> py_len arg_value))
           else Inl (unsupported (Call func args)))
      | _ \<Rightarrow> Inl AttributeError)"
| "eval_expression e row = Inl (unsupported e)"

subsection \<open>The nodes an evaluation reaches\<close>




subsection \<open>\<^verbatim>\<open>filter_rows\<close>\<close>

text \<open>
  A generator: the rows it yields, in order, and the exception that ended the iteration,
  if one did. The rows yielded before an exception have reached the consumer.
\<close>

fun filter_rows :: "row list \<Rightarrow> expr \<Rightarrow> row list \<times> error option" where
  "filter_rows [] expression_tree = ([], None)"
| "filter_rows (row # reader) expression_tree =
     (case eval_expression expression_tree row of
        Inl e \<Rightarrow> ([], Some e)
      | Inr v \<Rightarrow>
          (let (rows, err) = filter_rows reader expression_tree
           in (if truthy v then row # rows else rows, err)))"

subsection \<open>\<^verbatim>\<open>read_csv_with_filter\<close>\<close>

text \<open>
  The file and \<^verbatim>\<open>csv.DictReader\<close> are outside the model: \<open>reader\<close> is the list
  of the rows the reader yields. \<open>skip_rows\<close> is the loop
  \<^verbatim>\<open>for _ in range(start_index): next(reader, None)\<close>, which leaves an exhausted
  reader exhausted and does nothing for a count that is not positive.
\<close>

fun skip_rows :: "nat \<Rightarrow> row list \<Rightarrow> row list" where
  "skip_rows 0 reader = reader"
| "skip_rows (Suc n) reader = skip_rows n (case reader of [] \<Rightarrow> [] | _ # rest \<Rightarrow> rest)"

text \<open>
  The loop \<^verbatim>\<open>for row_index, row in enumerate(reader)\<close>: \<open>row_index\<close> counts from
  0 at the first row after the skipped ones, and is compared with \<open>end_index\<close>.
\<close>

fun scan_rows :: "expr \<Rightarrow> int \<Rightarrow> int \<Rightarrow> row list \<Rightarrow> row list \<Rightarrow> error + row list" where
  "scan_rows expression_tree end_index row_index [] filtered_data = Inr filtered_data"
| "scan_rows expression_tree end_index row_index (row # reader) filtered_data =
     (if row_index \<ge> end_index then Inr filtered_data
      else (case eval_expression expression_tree row of
              Inl e \<Rightarrow> Inl e
            | Inr v \<Rightarrow>
                scan_rows expression_tree end_index (row_index + 1) reader
                  (if truthy v then filtered_data @ [row] else filtered_data)))"

definition read_csv_with_filter ::
  "(string \<Rightarrow> expr option) \<Rightarrow> row list \<Rightarrow> string \<Rightarrow> int \<Rightarrow> int \<Rightarrow> error + row list" where
  "read_csv_with_filter ast_parse reader filter_criteria page_number page_size =
     (case parse_filter_expression ast_parse filter_criteria of
        Inl e \<Rightarrow> Inl e
      | Inr expression_tree \<Rightarrow>
          (let start_index = (page_number - 1) * page_size;
               end_index = start_index + page_size
           in scan_rows expression_tree end_index 0 (skip_rows (nat start_index) reader) []))"

subsection \<open>Vocabulary of the properties\<close>

text \<open>
  The trees Python's parser builds for the filter texts used below, as
  \<^verbatim>\<open>ast.dump\<close> prints them. The table stands for the parser on these texts
  only; of the texts it gives no tree for, the properties use \<open>age >\<close>, which is a
  SyntaxError for the parser as well.
\<close>

definition ast_parse_examples :: "string \<Rightarrow> expr option" where
  "ast_parse_examples =
     map_of
      [(''1 < 2 < 3'',
          Compare (Constant (VInt 1)) [Lt, Lt] [Constant (VInt 2), Constant (VInt 3)]),
       (''3 < 2 < 1'',
          Compare (Constant (VInt 3)) [Lt, Lt] [Constant (VInt 2), Constant (VInt 1)]),
       (''1 < 3 < 2'',
          Compare (Constant (VInt 1)) [Lt, Lt] [Constant (VInt 3), Constant (VInt 2)]),
       (''age + 1 > 5'',
          Compare (BinOp (Name ''age'') Add (Constant (VInt 1))) [Gt] [Constant (VInt 5)]),
       (''(age >= 35) and (age <= 45)'',
          BoolOp And
            [Compare (Name ''age'') [GtE] [Constant (VInt 35)],
             Compare (Name ''age'') [LtE] [Constant (VInt 45)]]),
       (''len(name) > 10'',
          Compare (Call (Name ''len'') [Name ''name'']) [Gt] [Constant (VInt 10)]),
       (''len(name, age)'',
          Call (Name ''len'') [Name ''name'', Name ''age'']),
       (''name == 5'',
          Compare (Name ''name'') [Eq] [Constant (VInt 5)]),
       (''name < 5'',
          Compare (Name ''name'') [Lt] [Constant (VInt 5)]),
       (''2 < 1 < age + 1'',
          Compare (Constant (VInt 2)) [Lt, Lt]
            [Constant (VInt 1), BinOp (Name ''age'') Add (Constant (VInt 1))]),
       (''(age >= 35) and (5 < age + 1)'',
          BoolOp And
            [Compare (Name ''age'') [GtE] [Constant (VInt 35)],
             Compare (Constant (VInt 5)) [Lt] [BinOp (Name ''age'') Add (Constant (VInt 1))]]),
       (''name.upper()'', Call (Attribute (Name ''name'') ''upper'') []),
       (''len()'', Call (Name ''len'') []),
       (''True'', Constant (VBool True))]"


text \<open>A row satisfies the filter when the tree evaluates to a true value on it.\<close>

definition satisfies :: "expr \<Rightarrow> row \<Rightarrow> bool" where
  "satisfies expression_tree row =
     (case eval_expression expression_tree row of Inl e \<Rightarrow> False | Inr v \<Rightarrow> truthy v)"

definition raises :: "expr \<Rightarrow> row \<Rightarrow> bool" where
  "raises expression_tree row = isl (eval_expression expression_tree row)"

text \<open>
  The rows \<^verbatim>\<open>read_csv_with_filter\<close> evaluates: those after the
  \<open>start_index\<close> skipped ones whose \<open>row_index\<close> is below \<open>end_index\<close>.
\<close>

definition scanned :: "row list \<Rightarrow> int \<Rightarrow> int \<Rightarrow> row list" where
  "scanned reader page_number page_size =
     take (nat ((page_number - 1) * page_size + page_size))
       (drop (nat ((page_number - 1) * page_size)) reader)"



definition is_number :: "value \<Rightarrow> bool" where
  "is_number v = (case v of VBool _ \<Rightarrow> True | VInt _ \<Rightarrow> True | VFloat _ \<Rightarrow> True | _ \<Rightarrow> False)"

definition is_str :: "value \<Rightarrow> bool" where
  "is_str v = (case v of VStr _ \<Rightarrow> True | _ \<Rightarrow> False)"

definition incompatible :: "value \<Rightarrow> value \<Rightarrow> bool" where
  "incompatible a b = ((is_str a \<and> is_number b) \<or> (is_number a \<and> is_str b))"

section \<open>Properties\<close>

subsection \<open>The loops as list operations\<close>

lemma skip_rows_drop: "skip_rows n reader = drop n reader"
proof (induction n arbitrary: reader)
  case 0
  show ?case by simp
next
  case (Suc n)
  show ?case by (cases reader) (simp_all add: Suc.IH)
qed

lemma scan_rows_no_error:
  "\<forall>row \<in> set (take (nat (end_index - row_index)) reader). \<not> raises tree row \<Longrightarrow>
   scan_rows tree end_index row_index reader acc =
     Inr (acc @ filter (satisfies tree) (take (nat (end_index - row_index)) reader))"
proof (induction reader arbitrary: row_index acc)
  case Nil
  show ?case by simp
next
  case (Cons row reader)
  show ?case
  proof (cases "row_index \<ge> end_index")
    case True
    then show ?thesis by simp
  next
    case False
    then have n: "nat (end_index - row_index) = Suc (nat (end_index - (row_index + 1)))"
      by simp
    from Cons.prems n have here: "\<not> raises tree row"
      and rest: "\<forall>r \<in> set (take (nat (end_index - (row_index + 1))) reader). \<not> raises tree r"
      by simp_all
    from here obtain v where v: "eval_expression tree row = Inr v"
      by (cases "eval_expression tree row") (simp_all add: raises_def)
    show ?thesis
      using False v Cons.IH [OF rest] by (simp add: n satisfies_def)
  qed
qed

lemma filter_rows_no_error:
  "\<forall>row \<in> set reader. \<not> raises tree row \<Longrightarrow>
   filter_rows reader tree = (filter (satisfies tree) reader, None)"
proof (induction reader)
  case Nil
  show ?case by simp
next
  case (Cons row reader)
  then obtain v where v: "eval_expression tree row = Inr v"
    by (cases "eval_expression tree row") (simp_all add: raises_def)
  with Cons show ?case by (simp add: satisfies_def)
qed

lemma read_csv_with_filter_no_error:
  assumes "ast_parse text = Some tree"
    and "\<forall>row \<in> set (scanned reader page_number page_size). \<not> raises tree row"
  shows "read_csv_with_filter ast_parse reader text page_number page_size =
         Inr (filter (satisfies tree) (scanned reader page_number page_size))"
proof -
  let ?start = "(page_number - 1) * page_size"
  have "scan_rows tree (?start + page_size) 0 (drop (nat ?start) reader) [] =
        Inr ([] @ filter (satisfies tree)
               (take (nat (?start + page_size - 0)) (drop (nat ?start) reader)))"
    by (rule scan_rows_no_error) (use assms(2) in \<open>simp add: scanned_def\<close>)
  then show ?thesis
    using assms(1)
    by (simp add: read_csv_with_filter_def parse_filter_expression_def scanned_def
        skip_rows_drop Let_def)
qed

lemma subseq_scanned: "subseq (scanned reader page_number page_size) reader"
proof -
  have "subseq (take n (drop m reader))
          (take m reader @ (take n (drop m reader) @ drop n (drop m reader)))" for n m
    by (intro subseq_drop_many subseq_rev_drop_many) simp
  then show ?thesis
    unfolding scanned_def append_take_drop_id .
qed

subsection \<open>Argument tuples, truth and mixed comparisons\<close>

lemma star_args_values:
  "\<forall>x \<in> set xs. \<not> isl x \<Longrightarrow> star_args xs = Inr (map projr xs)"
  by (induction xs) (auto split: sum.splits)

lemma star_args_error:
  "\<exists>x \<in> set xs. isl x \<Longrightarrow> isl (star_args xs)"
proof (induction xs)
  case Nil
  then show ?case by simp
next
  case (Cons x xs)
  show ?case
  proof (cases x)
    case (Inl e)
    then show ?thesis by simp
  next
    case (Inr v)
    with Cons.prems have "\<exists>x \<in> set xs. isl x" by auto
    then have "isl (star_args xs)" by (rule Cons.IH)
    with Inr show ?thesis by (cases "star_args xs") simp_all
  qed
qed

lemma truthy_projr:
  "\<not> raises v row \<Longrightarrow> truthy (projr (eval_expression v row)) = satisfies v row"
  by (cases "eval_expression v row") (simp_all add: raises_def satisfies_def)

lemma ordering_incompatible:
  "incompatible a b \<Longrightarrow> ordering p q a b = Inl TypeError"
  by (cases a; cases b) (simp_all add: incompatible_def is_str_def is_number_def ordering_def)

lemma py_eq_incompatible:
  "incompatible a b \<Longrightarrow> \<not> py_eq a b"
  by (cases a; cases b) (simp_all add: incompatible_def is_str_def is_number_def py_eq_def)

lemma convert_value_str:
  "convert_value (VStr s) =
     (case int_of_str s of
        Some i \<Rightarrow> Inr (VInt i)
      | None \<Rightarrow> (case float_of_str s of Some f \<Rightarrow> Inr (VFloat f) | None \<Rightarrow> Inr (VStr s)))"
  by (cases "int_of_str s"; cases "float_of_str s") (simp_all add: convert_value_def)

subsection \<open>An exception at a reached node propagates\<close>











subsection \<open>Evaluations of the filters of the source's test list\<close>

lemma age_range_40:
  "eval_expression
     (BoolOp And [Compare (Name ''age'') [GtE] [Constant (VInt 35)],
                  Compare (Name ''age'') [LtE] [Constant (VInt 45)]])
     [''age'' \<mapsto> ''40''] = Inr (VBool True)"
  by code_simp

lemma age_range_50:
  "eval_expression
     (BoolOp And [Compare (Name ''age'') [GtE] [Constant (VInt 35)],
                  Compare (Name ''age'') [LtE] [Constant (VInt 45)]])
     [''age'' \<mapsto> ''50''] = Inr (VBool False)"
  by code_simp

lemma age_range_36:
  "eval_expression
     (BoolOp And [Compare (Name ''age'') [GtE] [Constant (VInt 35)],
                  Compare (Name ''age'') [LtE] [Constant (VInt 45)]])
     [''age'' \<mapsto> ''36''] = Inr (VBool True)"
  by code_simp

lemma len_name_Alexandria:
  "eval_expression (Compare (Call (Name ''len'') [Name ''name'']) [Gt] [Constant (VInt 10)])
     [''name'' \<mapsto> ''Alexandria''] = Inr (VBool False)"
  by code_simp

lemma len_name_Alexandri:
  "eval_expression (Compare (Call (Name ''len'') [Name ''name'']) [Gt] [Constant (VInt 10)])
     [''name'' \<mapsto> ''Alexandri''] = Inr (VBool False)"
  by code_simp

lemma name_Alexandria:
  "eval_expression (Name ''name'') [''name'' \<mapsto> ''Alexandria''] = Inr (VStr ''Alexandria'')"
  by code_simp

lemma age_40: "eval_expression (Name ''age'') [''age'' \<mapsto> ''40''] = Inr (VInt 40)"
  by code_simp


lemma name_eq_5:
  "eval_expression (Compare (Name ''name'') [Eq] [Constant (VInt 5)])
     [''name'' \<mapsto> ''Alexandria''] = Inr (VBool False)"
  by code_simp

lemma int_of_str_3_5: "int_of_str ''3.5'' = None"
  by code_simp

lemma decimal_3_5: "decimal ''3.5'' = Some (Finite (7 / 2))"
  by (simp add: decimal_def split_at_def mantissa_def exponent_def opt_digits_def is_digit_def
      nat_of_digits_def digit_val_def binary64_def bit_length.simps scale2_def
      round_half_even_def Let_def)

lemma float_of_str_3_5: "float_of_str ''3.5'' = Some (Finite (7 / 2))"
  by (simp add: float_of_str_def strip_def py_isspace_def split_sign_def to_lower_def
      decimal_3_5)

lemma convert_3_5: "convert_value (VStr ''3.5'') = Inr (VFloat (Finite (7 / 2)))"
  by (simp add: convert_value_str int_of_str_3_5 float_of_str_3_5)

lemma floor_7_2: "\<lfloor>7 / 2 :: rat\<rfloor> = 3"
  by (rule floor_unique) simp_all

lemma truncate_7_2: "truncate (7 / 2) = 3"
  unfolding truncate_def using floor_7_2 by simp

lemma convert_float_3_5: "convert_value (VFloat (Finite (7 / 2))) = Inr (VInt 3)"
  using truncate_7_2 by (simp add: convert_value_def del: of_int_numeral)

lemma convert_40: "convert_value (VStr ''40'') = Inr (VInt 40)"
  by code_simp

subsection \<open>Chained comparison\<close>

text \<open>
  Claim C1 says that a chained comparison \<open>a op1 b op2 c\<close> evaluates to
  \<open>(a op1 b) and (b op2 c)\<close>, the middle operand being the left side of the second pair.
  The code compares every right side with the first operand: \<open>left\<close> is evaluated once,
  before the pairs, and never replaced. On integer literals and \<open><\<close> the result is
  \<open>a < b \<and> a < c\<close>; the text \<open>1 < 3 < 2\<close> evaluates to true, where the claim (and
  Python) give false. The two examples of the claim come out as it says.
\<close>

theorem chained_comparison_compares_first_operand:
  "eval_expression
     (Compare (Constant (VInt a)) [Lt, Lt] [Constant (VInt b), Constant (VInt c)]) row
     = Inr (VBool (a < b \<and> a < c))
   \<and> parse_filter_expression ast_parse_examples ''1 < 3 < 2'' =
       Inr (Compare (Constant (VInt 1)) [Lt, Lt] [Constant (VInt 3), Constant (VInt 2)])
   \<and> eval_expression
       (Compare (Constant (VInt 1)) [Lt, Lt] [Constant (VInt 3), Constant (VInt 2)]) Map.empty
     = Inr (VBool True)
   \<and> eval_expression
       (Compare (Constant (VInt 1)) [Lt, Lt] [Constant (VInt 2), Constant (VInt 3)]) Map.empty
     = Inr (VBool True)
   \<and> eval_expression
       (Compare (Constant (VInt 3)) [Lt, Lt] [Constant (VInt 2), Constant (VInt 1)]) Map.empty
     = Inr (VBool False)"
  by (simp add: parse_filter_expression_def ast_parse_examples_def operator_lt_def ordering_def)

subsection \<open>The page that is scanned\<close>

text \<open>
  Claim C2 says that page \<open>pageNumber\<close> evaluates exactly the \<open>pageSize\<close> records after
  the skipped ones. The code compares \<open>row_index\<close>, which \<^verbatim>\<open>enumerate\<close> counts
  from 0 after the skip, with \<open>end_index\<close>, which counts from the start of the file: it
  evaluates \<open>pageNumber * pageSize\<close> records after the skipped ones. With six records
  that all match, page 2 of size 2 returns the records at offsets 2 to 5, where the claim
  gives those at offsets 2 and 3.
\<close>

theorem second_page_scans_past_its_window:
  "read_csv_with_filter ast_parse_examples
     [[''id'' \<mapsto> ''0''], [''id'' \<mapsto> ''1''], [''id'' \<mapsto> ''2''],
      [''id'' \<mapsto> ''3''], [''id'' \<mapsto> ''4''], [''id'' \<mapsto> ''5'']]
     ''True'' 2 2
   = Inr [[''id'' \<mapsto> ''2''], [''id'' \<mapsto> ''3''], [''id'' \<mapsto> ''4''], [''id'' \<mapsto> ''5'']]"
  by (simp add: read_csv_with_filter_def parse_filter_expression_def ast_parse_examples_def
      eval_nat_numeral)

subsection \<open>A field that the row does not have\<close>

text \<open>
  Claim C5 says that evaluating a reference to a field absent from the row completes without
  raising. The lookup itself does not fail (\<^verbatim>\<open>row.get\<close> gives \<^verbatim>\<open>None\<close>),
  and the value is passed to \<^verbatim>\<open>convert_value\<close>; there \<^verbatim>\<open>int(None)\<close>
  raises TypeError, which the handler for ValueError does not catch: the evaluation of the
  field reference raises TypeError, for every row without the field.
\<close>

theorem absent_field_raises_type_error:
  "eval_expression (Name ident) (row(ident := None)) = Inl TypeError
   \<and> eval_expression (Name ''age'') Map.empty = Inl TypeError"
  by (simp add: row_get_def convert_value_def)

subsection \<open>The rows returned are the satisfying rows, in order\<close>

text \<open>
  Claim C10: when the evaluation of the tree raises on none of the rows read, the rows
  \<^verbatim>\<open>filter_rows\<close> yields are exactly the rows of the input that satisfy the filter,
  in the order of the input (a subsequence of it), and the iteration ends without an
  exception; and when the text parses and the tree raises on none of the scanned rows,
  \<^verbatim>\<open>read_csv_with_filter\<close> returns exactly the scanned rows that satisfy the
  filter, in their order, the scanned rows being a run of consecutive rows of the input.
\<close>

theorem filtered_rows_are_the_satisfying_subsequence:
  "((\<forall>row \<in> set reader. \<not> raises tree row) \<longrightarrow>
      filter_rows reader tree = (filter (satisfies tree) reader, None)
      \<and> subseq (fst (filter_rows reader tree)) reader
      \<and> set (fst (filter_rows reader tree)) = {row \<in> set reader. satisfies tree row})
   \<and> (ast_parse text = Some tree
        \<and> (\<forall>row \<in> set (scanned reader page_number page_size). \<not> raises tree row) \<longrightarrow>
      (\<exists>rows. read_csv_with_filter ast_parse reader text page_number page_size = Inr rows
         \<and> rows = filter (satisfies tree) (scanned reader page_number page_size)
         \<and> subseq rows (scanned reader page_number page_size)
         \<and> set rows = {row \<in> set (scanned reader page_number page_size). satisfies tree row}
         \<and> subseq (scanned reader page_number page_size) reader))"
proof (intro conjI impI)
  assume a: "\<forall>row \<in> set reader. \<not> raises tree row"
  show "filter_rows reader tree = (filter (satisfies tree) reader, None)"
    by (rule filter_rows_no_error [OF a])
  then show "subseq (fst (filter_rows reader tree)) reader"
    by simp
  show "set (fst (filter_rows reader tree)) = {row \<in> set reader. satisfies tree row}"
    by (simp add: filter_rows_no_error [OF a])
next
  assume b: "ast_parse text = Some tree
        \<and> (\<forall>row \<in> set (scanned reader page_number page_size). \<not> raises tree row)"
  have sub: "subseq (scanned reader page_number page_size) reader"
    by (rule subseq_scanned)
  from b have "read_csv_with_filter ast_parse reader text page_number page_size =
         Inr (filter (satisfies tree) (scanned reader page_number page_size))"
    by (intro read_csv_with_filter_no_error) simp_all
  with sub show "\<exists>rows. read_csv_with_filter ast_parse reader text page_number page_size = Inr rows
         \<and> rows = filter (satisfies tree) (scanned reader page_number page_size)
         \<and> subseq rows (scanned reader page_number page_size)
         \<and> set rows = {row \<in> set (scanned reader page_number page_size). satisfies tree row}
         \<and> subseq (scanned reader page_number page_size) reader"
    by simp
qed

theorem filtered_rows_witness:
  "filter_rows [[''age'' \<mapsto> ''40''], [''age'' \<mapsto> ''50''], [''age'' \<mapsto> ''36'']]
     (BoolOp And [Compare (Name ''age'') [GtE] [Constant (VInt 35)],
                  Compare (Name ''age'') [LtE] [Constant (VInt 45)]])
   = ([[''age'' \<mapsto> ''40''], [''age'' \<mapsto> ''36'']], None)
   \<and> read_csv_with_filter ast_parse_examples
        [[''age'' \<mapsto> ''40''], [''age'' \<mapsto> ''50''], [''age'' \<mapsto> ''36'']]
        ''(age >= 35) and (age <= 45)'' 1 2
      = Inr [[''age'' \<mapsto> ''40'']]"
  using filtered_rows_are_the_satisfying_subsequence
    [of "[[''age'' \<mapsto> ''40''], [''age'' \<mapsto> ''50''], [''age'' \<mapsto> ''36'']]"
        "BoolOp And [Compare (Name ''age'') [GtE] [Constant (VInt 35)],
                  Compare (Name ''age'') [LtE] [Constant (VInt 45)]]"
        ast_parse_examples "''(age >= 35) and (age <= 45)''" 1 2]
  by (simp add: raises_def satisfies_def scanned_def ast_parse_examples_def
      age_range_40 age_range_50 age_range_36 del: eval_expression.simps)

subsection \<open>Boolean combinators\<close>

text \<open>
  Claim C8: a \<open>BoolOp\<close> evaluates every child and reduces the results with
  \<^verbatim>\<open>all\<close> (for \<open>And\<close>) or \<^verbatim>\<open>any\<close> (for \<open>Or\<close>). When no child
  raises, the result is the conjunction, respectively the disjunction, of the truth of all
  children; and there is no early exit: a child that raises makes the combinator raise,
  whatever the other children evaluate to. The filter \<open>(age >= 35) and (age <= 45)\<close> is
  true on a row with age 40 and false on a row with age 50.
\<close>

theorem boolop_evaluates_every_child:
  "((\<forall>v \<in> set values. \<not> raises v row) \<longrightarrow>
       eval_expression (BoolOp And values) row = Inr (VBool (\<forall>v \<in> set values. satisfies v row))
     \<and> eval_expression (BoolOp Or values) row = Inr (VBool (\<exists>v \<in> set values. satisfies v row)))
   \<and> ((\<exists>v \<in> set values. raises v row) \<longrightarrow> raises (BoolOp op values) row)
   \<and> parse_filter_expression ast_parse_examples ''(age >= 35) and (age <= 45)'' =
       Inr (BoolOp And [Compare (Name ''age'') [GtE] [Constant (VInt 35)],
                        Compare (Name ''age'') [LtE] [Constant (VInt 45)]])
   \<and> eval_expression
        (BoolOp And [Compare (Name ''age'') [GtE] [Constant (VInt 35)],
                     Compare (Name ''age'') [LtE] [Constant (VInt 45)]])
        [''age'' \<mapsto> ''40''] = Inr (VBool True)
   \<and> eval_expression
        (BoolOp And [Compare (Name ''age'') [GtE] [Constant (VInt 35)],
                     Compare (Name ''age'') [LtE] [Constant (VInt 45)]])
        [''age'' \<mapsto> ''50''] = Inr (VBool False)"
proof (intro conjI impI)
  assume a: "\<forall>v \<in> set values. \<not> raises v row"
  then have args: "star_args (map (\<lambda>v. eval_expression v row) values) =
      Inr (map projr (map (\<lambda>v. eval_expression v row) values))"
    by (intro star_args_values) (simp add: raises_def)
  from a show "eval_expression (BoolOp And values) row =
      Inr (VBool (\<forall>v \<in> set values. satisfies v row))"
    by (simp add: args list_all_iff truthy_projr)
  from a show "eval_expression (BoolOp Or values) row =
      Inr (VBool (\<exists>v \<in> set values. satisfies v row))"
    by (simp add: args list_ex_iff truthy_projr)
next
  assume "\<exists>v \<in> set values. raises v row"
  then have "isl (star_args (map (\<lambda>v. eval_expression v row) values))"
    by (intro star_args_error) (simp add: raises_def)
  then show "raises (BoolOp op values) row"
    by (cases "star_args (map (\<lambda>v. eval_expression v row) values)") (simp_all add: raises_def)
next
  show "parse_filter_expression ast_parse_examples ''(age >= 35) and (age <= 45)'' =
       Inr (BoolOp And [Compare (Name ''age'') [GtE] [Constant (VInt 35)],
                        Compare (Name ''age'') [LtE] [Constant (VInt 45)]])"
    by (simp add: parse_filter_expression_def ast_parse_examples_def)
qed (rule age_range_40 age_range_50)+



theorem boolop_evaluates_every_child_witness:
  "eval_expression
     (BoolOp Or [Compare (Constant (VInt 1)) [Gt] [Constant (VInt 2)], Constant (VStr ''x'')])
     Map.empty = Inr (VBool True)
   \<and> raises
     (BoolOp And [Compare (Constant (VInt 1)) [Gt] [Constant (VInt 2)],
                  Call (Name ''len'') [Constant (VInt 5)]])
     Map.empty"
proof -
  have a: "\<forall>v \<in> set [Compare (Constant (VInt 1)) [Gt] [Constant (VInt 2)], Constant (VStr ''x'')].
             \<not> raises v Map.empty"
    by (simp add: raises_def operator_gt_def ordering_def)
  have b: "\<exists>v \<in> set [Compare (Constant (VInt 1)) [Gt] [Constant (VInt 2)],
                       Call (Name ''len'') [Constant (VInt 5)]]. raises v Map.empty"
    by (simp add: raises_def)
  from a b boolop_evaluates_every_child
    [of "[Compare (Constant (VInt 1)) [Gt] [Constant (VInt 2)], Constant (VStr ''x'')]" Map.empty]
    boolop_evaluates_every_child
    [of "[Compare (Constant (VInt 1)) [Gt] [Constant (VInt 2)],
          Call (Name ''len'') [Constant (VInt 5)]]" Map.empty And]
  show ?thesis
    by (simp add: satisfies_def raises_def operator_gt_def ordering_def)
qed

subsection \<open>The length call\<close>

text \<open>
  Claim C9, its example as stated: it says that \<open>len(name) > 10\<close> is true on the name
  Alexandria. The name has ten characters, and the code returns false.
\<close>

theorem len_gt_10_on_ten_characters:
  "parse_filter_expression ast_parse_examples ''len(name) > 10'' =
     Inr (Compare (Call (Name ''len'') [Name ''name'']) [Gt] [Constant (VInt 10)])
   \<and> eval_expression (Compare (Call (Name ''len'') [Name ''name'']) [Gt] [Constant (VInt 10)])
        [''name'' \<mapsto> ''Alexandria''] = Inr (VBool False)"
  by (simp add: parse_filter_expression_def ast_parse_examples_def len_name_Alexandria
      del: eval_expression.simps)

text \<open>
  Claim C9 as amended: a call of \<open>len\<close> evaluates its argument; when the result is a
  text it returns the length of the text as an integer, and when the result is a number it
  raises TypeError. The filter \<open>len(name) > 10\<close> is false on the name Alexandria (ten
  characters) and false on the name Alexandri (nine).
\<close>

theorem length_call_of_string_and_number:
  "(eval_expression arg row = Inr (VStr s) \<longrightarrow>
      eval_expression (Call (Name ''len'') [arg]) row = Inr (VInt (int (length s))))
   \<and> (eval_expression arg row = Inr v \<and> is_number v \<longrightarrow>
      eval_expression (Call (Name ''len'') [arg]) row = Inl TypeError)
   \<and> eval_expression (Compare (Call (Name ''len'') [Name ''name'']) [Gt] [Constant (VInt 10)])
        [''name'' \<mapsto> ''Alexandria''] = Inr (VBool False)
   \<and> eval_expression (Compare (Call (Name ''len'') [Name ''name'']) [Gt] [Constant (VInt 10)])
        [''name'' \<mapsto> ''Alexandri''] = Inr (VBool False)"
proof (intro conjI impI)
  assume "eval_expression arg row = Inr (VStr s)"
  then show "eval_expression (Call (Name ''len'') [arg]) row = Inr (VInt (int (length s)))"
    by simp
next
  assume "eval_expression arg row = Inr v \<and> is_number v"
  then show "eval_expression (Call (Name ''len'') [arg]) row = Inl TypeError"
    by (cases v) (simp_all add: is_number_def)
qed (rule len_name_Alexandria len_name_Alexandri)+

theorem length_call_witness:
  "eval_expression (Call (Name ''len'') [Name ''name'']) [''name'' \<mapsto> ''Alexandria'']
     = Inr (VInt 10)
   \<and> eval_expression (Call (Name ''len'') [Name ''age'']) [''age'' \<mapsto> ''40''] = Inl TypeError"
  using length_call_of_string_and_number
      [of "Name ''name''" "[''name'' \<mapsto> ''Alexandria'']" "''Alexandria''"]
    length_call_of_string_and_number
      [of "Name ''age''" "[''age'' \<mapsto> ''40'']" _ "VInt 40"]
  by (simp add: name_Alexandria age_40 is_number_def del: eval_expression.simps)

subsection \<open>Comparing a text with a number\<close>

text \<open>
  Claim C6, as stated: it says that a comparison of a text with a number fails with a type
  error for every operator, \<open>==\<close> and \<open>!=\<close> included. The filter \<open>name == 5\<close> on
  a row whose name is a text evaluates to false and raises nothing.
\<close>

theorem equality_of_string_and_number_does_not_raise:
  "parse_filter_expression ast_parse_examples ''name == 5'' =
     Inr (Compare (Name ''name'') [Eq] [Constant (VInt 5)])
   \<and> eval_expression (Compare (Name ''name'') [Eq] [Constant (VInt 5)])
        [''name'' \<mapsto> ''Alexandria''] = Inr (VBool False)"
  by (simp add: parse_filter_expression_def ast_parse_examples_def name_eq_5
      del: eval_expression.simps)

text \<open>
  Claim C6 as amended: when the left and the right side of a comparison evaluate to a text
  and a number (in either order), the evaluation raises TypeError for the operators
  \<open><\<close>, \<open><=\<close>, \<open>>\<close> and \<open>>=\<close>; for \<open>==\<close> it returns false and for
  \<open>!=\<close> true, without raising. The failure happens when a row is evaluated, on trees that
  compile: \<open>name < 5\<close> on a row whose name is a text.
\<close>

theorem mixed_comparison_raises_for_orderings_only:
  "eval_expression left row = Inr a \<and> eval_expression right row = Inr b \<and> incompatible a b \<longrightarrow>
     eval_expression (Compare left [Lt] [right]) row = Inl TypeError
   \<and> eval_expression (Compare left [LtE] [right]) row = Inl TypeError
   \<and> eval_expression (Compare left [Gt] [right]) row = Inl TypeError
   \<and> eval_expression (Compare left [GtE] [right]) row = Inl TypeError
   \<and> eval_expression (Compare left [Eq] [right]) row = Inr (VBool False)
   \<and> eval_expression (Compare left [NotEq] [right]) row = Inr (VBool True)"
  by (simp add: ordering_incompatible py_eq_incompatible operator_lt_def operator_le_def
      operator_gt_def operator_ge_def operator_eq_def operator_ne_def)

theorem mixed_comparison_witness:
  "parse_filter_expression ast_parse_examples ''name < 5'' =
     Inr (Compare (Name ''name'') [Lt] [Constant (VInt 5)])
   \<and> eval_expression (Compare (Name ''name'') [Lt] [Constant (VInt 5)])
        [''name'' \<mapsto> ''Alexandria''] = Inl TypeError
   \<and> eval_expression (Compare (Name ''name'') [NotEq] [Constant (VInt 5)])
        [''name'' \<mapsto> ''Alexandria''] = Inr (VBool True)"
proof -
  have "incompatible (VStr ''Alexandria'') (VInt 5)"
    by (simp add: incompatible_def is_str_def is_number_def)
  with name_Alexandria
    mixed_comparison_raises_for_orderings_only
      [of "Name ''name''" "[''name'' \<mapsto> ''Alexandria'']" "VStr ''Alexandria''"
          "Constant (VInt 5)" "VInt 5"]
  show ?thesis
    by (simp add: parse_filter_expression_def ast_parse_examples_def del: eval_expression.simps(2,3))
qed

subsection \<open>Coercing twice\<close>

text \<open>
  Claim C7, as stated: it says that coercing an already coerced value gives the same typed
  result, also for a value coerced to a float. The text \<open>3.5\<close> is coerced to the float
  3.5, and coercing that float gives the integer 3: \<^verbatim>\<open>int\<close> of a float succeeds
  and truncates.
\<close>

theorem second_coercion_truncates_float:
  "convert_value (VStr ''3.5'') = Inr (VFloat (Finite (7 / 2)))
   \<and> convert_value (VFloat (Finite (7 / 2))) = Inr (VInt 3)"
  using convert_3_5 convert_float_3_5 by simp

text \<open>
  Claim C7 as amended: the coercion of a raw text first attempts the integer parse, on
  failure the float parse, and on failure returns the text unchanged; applying the coercion
  again to a result that is not a float (an integer, or the unchanged text) yields the same
  typed result. A finite float is truncated to an integer by a second coercion.
\<close>

theorem coercion_order_and_second_coercion:
  "convert_value (VStr s) =
     (case int_of_str s of
        Some i \<Rightarrow> Inr (VInt i)
      | None \<Rightarrow> (case float_of_str s of Some f \<Rightarrow> Inr (VFloat f) | None \<Rightarrow> Inr (VStr s)))
   \<and> (convert_value (VStr s) = Inr v \<and> (\<forall>f. v \<noteq> VFloat f) \<longrightarrow> convert_value v = Inr v)
   \<and> convert_value (VFloat (Finite x)) = Inr (VInt (truncate x))"
proof (intro conjI impI)
  show "convert_value (VStr s) =
     (case int_of_str s of
        Some i \<Rightarrow> Inr (VInt i)
      | None \<Rightarrow> (case float_of_str s of Some f \<Rightarrow> Inr (VFloat f) | None \<Rightarrow> Inr (VStr s)))"
    by (rule convert_value_str)
next
  assume a: "convert_value (VStr s) = Inr v \<and> (\<forall>f. v \<noteq> VFloat f)"
  show "convert_value v = Inr v"
  proof (cases "int_of_str s")
    case (Some i)
    with a have "v = VInt i" by (simp add: convert_value_str)
    then show ?thesis by (simp add: convert_value_def)
  next
    case None
    note no_int = None
    show ?thesis
    proof (cases "float_of_str s")
      case None
      with no_int a have "v = VStr s" by (simp add: convert_value_str)
      with a show ?thesis by simp
    next
      case (Some f)
      with no_int a have "v = VFloat f" by (simp add: convert_value_str)
      with a show ?thesis by blast
    qed
  qed
next
  show "convert_value (VFloat (Finite x)) = Inr (VInt (truncate x))"
    by (simp add: convert_value_def)
qed

theorem coercion_witness:
  "convert_value (VStr ''40'') = Inr (VInt 40) \<and> convert_value (VInt 40) = Inr (VInt 40)"
  using coercion_order_and_second_coercion [of "''40''" "VInt 40"] convert_40
  by simp

subsection \<open>Constructs outside the five node variants\<close>




subsection \<open>Calls\<close>

text \<open>
  Claim C4, as stated: it says that \<open>len\<close> with any arity other than one is rejected with
  the error for unsupported expressions. The call \<open>len(name, age)\<close> is evaluated as
  \<open>len(name)\<close>, and \<open>len()\<close> raises IndexError.
\<close>

theorem len_with_two_arguments_is_accepted:
  "parse_filter_expression ast_parse_examples ''len(name, age)'' =
     Inr (Call (Name ''len'') [Name ''name'', Name ''age''])
   \<and> eval_expression (Call (Name ''len'') [Name ''name'', Name ''age''])
        [''name'' \<mapsto> ''Alexandria'', ''age'' \<mapsto> ''40''] = Inr (VInt 10)
   \<and> parse_filter_expression ast_parse_examples ''len()'' = Inr (Call (Name ''len'') [])
   \<and> eval_expression (Call (Name ''len'') []) [''name'' \<mapsto> ''Alexandria''] = Inl IndexError"
proof -
  have "eval_expression (Call (Name ''len'') [Name ''name'', Name ''age''])
        [''name'' \<mapsto> ''Alexandria'', ''age'' \<mapsto> ''40''] = Inr (VInt 10)"
    by code_simp
  then show ?thesis
    by (simp add: parse_filter_expression_def ast_parse_examples_def
        del: eval_expression.simps(3))
qed

text \<open>
  Claim C4 as amended: a call is accepted only when its target is the identifier \<open>len\<close>
  and it has at least one argument; \<open>len\<close> is then applied to the value of the first
  argument, whatever arguments follow. Every other call is rejected when it is evaluated: a
  call whose target is not a name with AttributeError, a call of another name with
  ValueError "Unsupported expression type", and \<open>len()\<close> with IndexError. The parse error
  is a ValueError as well, with the message "Invalid filter expression": the unsupported
  call and the parse error differ by their message, not by their exception class.
\<close>

theorem call_accepted_only_for_len:
  "((\<forall>ident. func \<noteq> Name ident) \<longrightarrow>
      eval_expression (Call func args) row = Inl AttributeError)
   \<and> (ident \<noteq> ''len'' \<longrightarrow>
      eval_expression (Call (Name ident) args) row =
        Inl (ValueError (''Unsupported expression type: <class '' @ [CHR 0x27] @ ''ast.Call''
                         @ [CHR 0x27] @ ''>'')))
   \<and> eval_expression (Call (Name ''len'') []) row = Inl IndexError
   \<and> eval_expression (Call (Name ''len'') (arg # more)) row =
       (case eval_expression arg row of Inl e \<Rightarrow> Inl e | Inr v \<Rightarrow> py_len v)
   \<and> (ast_parse text = None \<longrightarrow>
       parse_filter_expression ast_parse text =
         Inl (ValueError (''Invalid filter expression: '' @ text)))"
proof (intro conjI impI)
  assume "\<forall>ident. func \<noteq> Name ident"
  then show "eval_expression (Call func args) row = Inl AttributeError"
    by (cases func) simp_all
next
  assume "ident \<noteq> ''len''"
  then show "eval_expression (Call (Name ident) args) row =
        Inl (ValueError (''Unsupported expression type: <class '' @ [CHR 0x27] @ ''ast.Call''
                         @ [CHR 0x27] @ ''>''))"
    by (simp add: unsupported_def)
next
  assume "ast_parse text = None"
  then show "parse_filter_expression ast_parse text =
         Inl (ValueError (''Invalid filter expression: '' @ text))"
    by (simp add: parse_filter_expression_def)
qed simp_all

theorem call_witness:
  "parse_filter_expression ast_parse_examples ''name.upper()'' =
     Inr (Call (Attribute (Name ''name'') ''upper'') [])
   \<and> eval_expression (Call (Attribute (Name ''name'') ''upper'') [])
        [''name'' \<mapsto> ''Alexandria''] = Inl AttributeError
   \<and> eval_expression (Call (Name ''upper'') [Name ''name'']) [''name'' \<mapsto> ''Alexandria''] =
     Inl (ValueError (''Unsupported expression type: <class '' @ [CHR 0x27] @ ''ast.Call''
                      @ [CHR 0x27] @ ''>''))
   \<and> parse_filter_expression ast_parse_examples ''age >'' =
       Inl (ValueError ''Invalid filter expression: age >'')"
proof -
  have a: "\<forall>ident. Attribute (Name ''name'') ''upper'' \<noteq> Name ident"
    by simp
  have b: "''upper'' \<noteq> ''len''"
    by simp
  have c: "ast_parse_examples ''age >'' = None"
    by (simp add: ast_parse_examples_def)
  note t = call_accepted_only_for_len
      [of "Attribute (Name ''name'') ''upper''" "[]" "[''name'' \<mapsto> ''Alexandria'']"
          "''upper''" _ _ ast_parse_examples "''age >''"]
  note t1 = t [THEN conjunct1, THEN mp, OF a]
  note t2 = call_accepted_only_for_len
      [of _ "[Name ''name'']" "[''name'' \<mapsto> ''Alexandria'']" "''upper''",
       THEN conjunct2, THEN conjunct1, THEN mp, OF b]
  note t3 = t [THEN conjunct2, THEN conjunct2, THEN conjunct2, THEN conjunct2, THEN mp, OF c]
  have p: "parse_filter_expression ast_parse_examples ''name.upper()'' =
     Inr (Call (Attribute (Name ''name'') ''upper'') [])"
    by (simp add: parse_filter_expression_def ast_parse_examples_def)
  from p t1 t2 t3 show ?thesis
    by (simp only: append.simps)
qed

end
